theory Spec2Isabelle
  imports Main "HOL-Library.Word"
begin

section \<open>The IR graph of \<^verbatim>\<open>Sources/x10/xla_tensor/ir.h\<close>\<close>

text \<open>
  The header declares the vertices of a lazily built computation graph (\<^verbatim>\<open>Node\<close>), the two
  handles that address one output of a vertex (\<^verbatim>\<open>Output\<close>, non-owning, and \<^verbatim>\<open>Value\<close>,
  owning), the operation tag \<^verbatim>\<open>OpKind\<close>, the scope stack \<^verbatim>\<open>ScopePusher\<close> and the downcast
  \<^verbatim>\<open>NodeCast\<close>. Objects have identity, so a node lives at an address of a heap and a pointer is
  an address or null.
\<close>

subsection \<open>Pointers and errors\<close>

type_synonym NodeId = nat

text \<open>\<^verbatim>\<open>const Node*\<close>: \<open>None\<close> is \<^verbatim>\<open>nullptr\<close>.\<close>

type_synonym RawPtr = "NodeId option"

text \<open>
  \<^verbatim>\<open>NodePtr = std::shared_ptr<Node>\<close>, represented by the address it holds; the reference count
  is not part of the model.
\<close>

type_synonym NodePtr = "NodeId option"

text \<open>\<^verbatim>\<open>std::shared_ptr::get\<close>: the raw pointer held by a shared pointer.\<close>

definition get :: "NodePtr \<Rightarrow> RawPtr" where
  "get p = p"

text \<open>
  The ways a call can fail: \<open>OutOfRange\<close> is the bounds failure of a checked container access,
  \<open>NullDereference\<close> the use of a null or dangling pointer, \<open>ShapeArityMismatch\<close> the
  construction-time contract violation on the number of outputs, and \<open>BadCast\<close> is
  \<^verbatim>\<open>std::bad_cast\<close>.
\<close>

datatype error = OutOfRange | NullDereference | ShapeArityMismatch | BadCast

subsection \<open>Value and Output\<close>

text \<open>
  \<^verbatim>\<open>struct Value { NodePtr node; size_t index = 0; }\<close> and
  \<^verbatim>\<open>struct Output { const Node* node = nullptr; size_t index = 0; }\<close>. An index is a
  \<^verbatim>\<open>size_t\<close> that is only stored and compared, never computed with, so it is a \<open>nat\<close>.
\<close>

record Value =
  node :: NodePtr
  index :: nat

record Output =
  node :: RawPtr
  index :: nat

text \<open>\<^verbatim>\<open>Output() = default\<close> and \<^verbatim>\<open>explicit Output(const Node* node, size_t index = 0)\<close>.\<close>

definition Output_default :: Output where
  "Output_default = \<lparr>Output.node = None, index = 0\<rparr>"

definition Output_ctor :: "RawPtr \<Rightarrow> nat \<Rightarrow> Output" where
  "Output_ctor p i = \<lparr>Output.node = p, index = i\<rparr>"

text \<open>\<^verbatim>\<open>Output::operator==\<close> and \<^verbatim>\<open>Output::operator!=\<close>.\<close>

definition Output_eq :: "Output \<Rightarrow> Output \<Rightarrow> bool" where
  "Output_eq lhs rhs = (Output.node lhs = Output.node rhs \<and> Output.index lhs = Output.index rhs)"

definition Output_neq :: "Output \<Rightarrow> Output \<Rightarrow> bool" where
  "Output_neq lhs rhs = (\<not> Output_eq lhs rhs)"

text \<open>\<^verbatim>\<open>Value() = default\<close> and \<^verbatim>\<open>Value(NodePtr node, size_t index = 0)\<close>.\<close>

definition Value_default :: Value where
  "Value_default = \<lparr>Value.node = None, index = 0\<rparr>"

definition Value_ctor :: "NodePtr \<Rightarrow> nat \<Rightarrow> Value" where
  "Value_ctor p i = \<lparr>Value.node = p, index = i\<rparr>"

text \<open>\<^verbatim>\<open>Value::operator bool\<close>: \<^verbatim>\<open>return node != nullptr\<close>.\<close>

definition Value_bool :: "Value \<Rightarrow> bool" where
  "Value_bool v = (Value.node v \<noteq> None)"

text \<open>\<^verbatim>\<open>Value::operator Output\<close>: \<^verbatim>\<open>return Output(node.get(), index)\<close>.\<close>

definition Value_Output :: "Value \<Rightarrow> Output" where
  "Value_Output v = Output_ctor (get (Value.node v)) (Value.index v)"

text \<open>
  \<^verbatim>\<open>Value\<close> declares no \<^verbatim>\<open>operator==\<close>. Two comparisons involving a \<^verbatim>\<open>Value\<close> are well-formed:

  \<^item> \<^verbatim>\<open>output == value\<close> calls \<^verbatim>\<open>Output::operator==\<close>, the right operand being converted
    by \<^verbatim>\<open>Value::operator Output\<close>;
  \<^item> \<^verbatim>\<open>value == value\<close> has no member or non-member candidate (the left operand of a member
    operator is never converted), so it is resolved to the built-in comparison of integers,
    both operands going through the non-explicit \<^verbatim>\<open>Value::operator bool\<close>.
\<close>

definition Output_eq_Value :: "Output \<Rightarrow> Value \<Rightarrow> bool" where
  "Output_eq_Value lhs rhs = Output_eq lhs (Value_Output rhs)"

definition Value_eq :: "Value \<Rightarrow> Value \<Rightarrow> bool" where
  "Value_eq lhs rhs = (Value_bool lhs = Value_bool rhs)"

subsection \<open>OpKind\<close>

text \<open>
  \<^verbatim>\<open>c10::Symbol\<close> is an interned name, converted to the 32-bit \<^verbatim>\<open>c10::unique_t\<close> for the
  ordering. \<^verbatim>\<open>struct OpKind { c10::Symbol op; }\<close>; the member is called \<open>sym\<close> here because
  \<open>op\<close> names the accessor of \<^verbatim>\<open>Node\<close>.
\<close>

type_synonym Symbol = "32 word"

datatype OpKind = OpKind (sym: Symbol)

definition OpKind_eq :: "OpKind \<Rightarrow> OpKind \<Rightarrow> bool" where
  "OpKind_eq lhs rhs = (sym lhs = sym rhs)"

definition OpKind_neq :: "OpKind \<Rightarrow> OpKind \<Rightarrow> bool" where
  "OpKind_neq lhs rhs = (\<not> OpKind_eq lhs rhs)"

definition OpKind_less :: "OpKind \<Rightarrow> OpKind \<Rightarrow> bool" where
  "OpKind_less lhs rhs = (unat (sym lhs) < unat (sym rhs))"

subsection \<open>Shapes and metadata\<close>

text \<open>
  Modelled from the spec: \<^verbatim>\<open>xla::Shape\<close> is declared outside the header. The specification
  speaks of a full shape that is a tuple for a multi-output node and of the components of that
  tuple; a shape is therefore an array shape (element type and dimensions) or a tuple of
  shapes.
\<close>

datatype PrimitiveType = PRED | S32 | S64 | F32 | F64

datatype Shape = ArrayShape PrimitiveType "nat list" | TupleShape "Shape list"

fun IsTuple :: "Shape \<Rightarrow> bool" where
  "IsTuple (TupleShape ss) = True"
| "IsTuple (ArrayShape t ds) = False"

fun tuple_shapes :: "Shape \<Rightarrow> Shape list" where
  "tuple_shapes (TupleShape ss) = ss"
| "tuple_shapes (ArrayShape t ds) = []"

text \<open>
  \<^verbatim>\<open>struct MetaData { std::string scope; std::vector<SourceLocation> frame_info; }\<close>. A
  \<^verbatim>\<open>SourceLocation\<close> (declared in \<^verbatim>\<open>swift_backtrace.h\<close>) is a position in a source file.
\<close>

datatype SourceLocation = SourceLocation string nat

record MetaData =
  scope :: string
  frame_info :: "SourceLocation list"

subsection \<open>Node\<close>

text \<open>
  The data members of \<^verbatim>\<open>class Node\<close>. A C++ member \<^verbatim>\<open>x_\<close> is the field \<open>x_m\<close> (a name
  may not end in an underscore). \<^verbatim>\<open>Node\<close> is polymorphic; \<open>dynamic_type\<close> is the most derived
  class of the object, which \<^verbatim>\<open>dynamic_cast\<close> inspects. The hash type \<^verbatim>\<open>xla::hash_t\<close> is
  declared outside the header and is the type parameter \<open>'h\<close>.
\<close>

type_synonym ClassId = string

record 'h Node =
  dynamic_type :: ClassId
  op_m :: OpKind
  num_outputs_m :: nat
  shape_m :: Shape
  operands_m :: "NodePtr list"
  operands_as_outputs_m :: "Output list"
  node_hash_m :: 'h
  hash_m :: 'h
  metadata_m :: MetaData

text \<open>The accessors defined in the class body; every one is a \<^verbatim>\<open>const\<close> member.\<close>

definition op :: "'h Node \<Rightarrow> OpKind" where
  "op n = op_m n"

definition num_outputs :: "'h Node \<Rightarrow> nat" where
  "num_outputs n = num_outputs_m n"

definition shape :: "'h Node \<Rightarrow> Shape" where
  "shape n = shape_m n"

definition operands :: "'h Node \<Rightarrow> Output list" where
  "operands n = operands_as_outputs_m n"

definition operand_nodes :: "'h Node \<Rightarrow> NodePtr list" where
  "operand_nodes n = operands_m n"

text \<open>
  \<^verbatim>\<open>operand(i)\<close> is \<^verbatim>\<open>operands_as_outputs_.at(i)\<close>; \<^verbatim>\<open>at\<close> of an
  \<^verbatim>\<open>absl::InlinedVector\<close> checks the index against the size and raises the out-of-range
  failure.
\<close>

definition operand :: "'h Node \<Rightarrow> nat \<Rightarrow> error + Output" where
  "operand n i =
     (if i < length (operands_as_outputs_m n) then Inr (operands_as_outputs_m n ! i)
      else Inl OutOfRange)"

definition node_hash :: "'h Node \<Rightarrow> 'h" where
  "node_hash n = node_hash_m n"

definition hash :: "'h Node \<Rightarrow> 'h" where
  "hash n = hash_m n"

definition metadata :: "'h Node \<Rightarrow> MetaData" where
  "metadata n = metadata_m n"


subsection \<open>NodeCast\<close>

text \<open>
  \<^verbatim>\<open>template <typename T> T* NodeCast(const Node* node, OpKind op)\<close>. The result is a null
  pointer or the address of the node seen at type \<^verbatim>\<open>T\<close>. The classes derived from \<^verbatim>\<open>Node\<close>
  are declared elsewhere; \<open>is_a D T\<close> says that an object of most derived class \<open>D\<close> is a
  \<^verbatim>\<open>T\<close> (\<open>D\<close> is \<open>T\<close> or has it as an accessible unambiguous base), which is when
  \<^verbatim>\<open>dynamic_cast<const T&>\<close> succeeds. The pointer argument \<^verbatim>\<open>node\<close> is \<open>p\<close>; reading
  \<^verbatim>\<open>node->op()\<close> through a null or dangling pointer is undefined in C++ and is the error
  \<open>NullDereference\<close> here.

  Without \<^verbatim>\<open>NDEBUG\<close> the cast is \<^verbatim>\<open>&dynamic_cast<const T&>(*node)\<close>, which throws
  \<^verbatim>\<open>std::bad_cast\<close> when the object is not a \<^verbatim>\<open>T\<close>.
\<close>

definition NodeCast ::
  "(ClassId \<Rightarrow> ClassId \<Rightarrow> bool) \<Rightarrow> (NodeId \<rightharpoonup> 'h Node) \<Rightarrow> ClassId \<Rightarrow> RawPtr \<Rightarrow> OpKind
     \<Rightarrow> error + (ClassId \<times> NodeId) option" where
  "NodeCast is_a hp T p k =
     (case p of
        None \<Rightarrow> Inl NullDereference
      | Some a \<Rightarrow>
          (case hp a of
             None \<Rightarrow> Inl NullDereference
           | Some n \<Rightarrow>
               if OpKind_neq k (op n) then Inr None
               else if is_a (dynamic_type n) T then Inr (Some (T, a))
               else Inl BadCast))"

text \<open>
  With \<^verbatim>\<open>NDEBUG\<close> the cast is \<^verbatim>\<open>static_cast<const T*>(node)\<close>: the address comes back at
  type \<^verbatim>\<open>T\<close> whatever the object is.
\<close>

definition NodeCast_NDEBUG ::
  "(NodeId \<rightharpoonup> 'h Node) \<Rightarrow> ClassId \<Rightarrow> RawPtr \<Rightarrow> OpKind \<Rightarrow> error + (ClassId \<times> NodeId) option" where
  "NodeCast_NDEBUG hp T p k =
     (case p of
        None \<Rightarrow> Inl NullDereference
      | Some a \<Rightarrow>
          (case hp a of
             None \<Rightarrow> Inl NullDereference
           | Some n \<Rightarrow>
               if OpKind_neq k (op n) then Inr None
               else Inr (Some (T, a))))"

section \<open>Construction\<close>

subsection \<open>The state around a node\<close>

text \<open>
  What construction reads and writes besides the node itself: the heap of nodes with the next
  free address, the stack of active scope names, the frames the provenance collaborator
  currently reports, and a counter of the invocations of deferred shape functions (a ghost
  of the model: it records each call of a \<^verbatim>\<open>shape_fn\<close>).
\<close>

record 'h IrState =
  heap :: "NodeId \<rightharpoonup> 'h Node"
  next_addr :: NodeId
  scopes :: "string list"
  frames :: "SourceLocation list"
  shape_fn_calls :: nat

text \<open>
  \<^verbatim>\<open>MakeNode<T>(args...)\<close> is \<^verbatim>\<open>std::make_shared<T>(args...)\<close>: the constructed object is
  placed at a fresh address, which the returned pointer holds.
\<close>

definition MakeNode :: "'h IrState \<Rightarrow> 'h Node \<Rightarrow> NodePtr \<times> 'h IrState" where
  "MakeNode st n =
     (Some (next_addr st),
      st\<lparr>heap := (heap st)(next_addr st \<mapsto> n), next_addr := Suc (next_addr st)\<rparr>)"

text \<open>Following a pointer: a null pointer and an address that holds no node are errors.\<close>

definition deref :: "'h IrState \<Rightarrow> RawPtr \<Rightarrow> error + 'h Node" where
  "deref st p =
     (case p of
        None \<Rightarrow> Inl NullDereference
      | Some a \<Rightarrow> (case heap st a of None \<Rightarrow> Inl NullDereference | Some n \<Rightarrow> Inr n))"

subsection \<open>Scopes\<close>

text \<open>
  Modelled from the spec: the constructor of \<^verbatim>\<open>ScopePusher\<close> is declared only. "push(name)
  appends a name to the active scope stack".
\<close>

definition ScopePusher_ctor :: "string \<Rightarrow> 'h IrState \<Rightarrow> 'h IrState" where
  "ScopePusher_ctor name st = st\<lparr>scopes := scopes st @ [name]\<rparr>"

text \<open>
  Modelled from the spec: the destructor of \<^verbatim>\<open>ScopePusher\<close> is declared only. "the paired pop
  removes it"; on an empty stack nothing is left to remove.
\<close>

definition ScopePusher_dtor :: "'h IrState \<Rightarrow> 'h IrState" where
  "ScopePusher_dtor st = st\<lparr>scopes := butlast (scopes st)\<rparr>"

text \<open>
  Modelled from the spec: \<^verbatim>\<open>ScopePusher::ResetScopes\<close> is declared only. "reset() clears the
  stack unconditionally".
\<close>

definition ResetScopes :: "'h IrState \<Rightarrow> 'h IrState" where
  "ResetScopes st = st\<lparr>scopes := []\<rparr>"

text \<open>
  Modelled from the spec: the function that reads the scope stack for a new node is not in the
  header. "Every node created while a scope is active records the concatenated active scope
  path in its metadata".
\<close>

definition GetCurrentScope :: "'h IrState \<Rightarrow> string" where
  "GetCurrentScope st = concat (scopes st)"

text \<open>A history of scope operations, applied from left to right.\<close>

datatype scope_op = Push string | Pop | Reset

fun run_scope_op :: "scope_op \<Rightarrow> 'h IrState \<Rightarrow> 'h IrState" where
  "run_scope_op (Push name) st = ScopePusher_ctor name st"
| "run_scope_op Pop st = ScopePusher_dtor st"
| "run_scope_op Reset st = ResetScopes st"

fun run_scope_ops :: "scope_op list \<Rightarrow> 'h IrState \<Rightarrow> 'h IrState" where
  "run_scope_ops [] st = st"
| "run_scope_ops (x # xs) st = run_scope_ops xs (run_scope_op x st)"

subsection \<open>Hashing\<close>

text \<open>
  The hash combiner, the hash of an operation (\<^verbatim>\<open>OpKind::hash\<close>, declared only) and the hash
  of a shape are not in the header, and the specification fixes no combiner ("deterministic
  and order-sensitive"); they are parameters of the model. \<open>combine\<close> takes the values to be
  combined in order.
\<close>

record 'h Hashing =
  combine :: "'h list \<Rightarrow> 'h"
  OpKind_hash :: "OpKind \<Rightarrow> 'h"
  Shape_hash :: "Shape \<Rightarrow> 'h"

text \<open>
  Modelled from the spec: \<^verbatim>\<open>Node::GetOpHash(op, shape, hash_seed)\<close> is declared only.
  "own_hash = combine(seed, operation_identity, shape)".
\<close>

definition GetOpHash :: "'h Hashing \<Rightarrow> OpKind \<Rightarrow> Shape \<Rightarrow> 'h \<Rightarrow> 'h" where
  "GetOpHash H k s hash_seed = combine H [hash_seed, OpKind_hash H k, Shape_hash H s]"

text \<open>
  Modelled from the spec: how a constructor obtains the cumulative hash of an operand is not in
  the header. The cumulative hash combines "the cumulative_hash of every operand's producing
  node": the operand's node pointer is followed and \<^verbatim>\<open>hash()\<close> is read.
\<close>

definition operand_hash :: "'h IrState \<Rightarrow> Value \<Rightarrow> error + 'h" where
  "operand_hash st v =
     (case deref st (get (Value.node v)) of Inl e \<Rightarrow> Inl e | Inr m \<Rightarrow> Inr (hash m))"

subsection \<open>Deferred shapes\<close>

text \<open>
  Modelled from the spec: \<^verbatim>\<open>Node::GetOpShape(shape_fn)\<close> is declared only. "shape_function is
  invoked at most once, lazily, the first time the shape is requested or needed for hashing;
  the result is memoized". The header adds that the function runs "only if needed (shape cache
  miss)"; the cache is not declared in the header, so the outcome of its lookup is the
  argument \<open>cached\<close>. Each invocation of \<open>shape_fn\<close> is counted.
\<close>

definition GetOpShape :: "Shape option \<Rightarrow> (unit \<Rightarrow> Shape) \<Rightarrow> 'h IrState \<Rightarrow> Shape \<times> 'h IrState" where
  "GetOpShape cached shape_fn st =
     (case cached of
        Some s \<Rightarrow> (s, st)
      | None \<Rightarrow> (shape_fn (), st\<lparr>shape_fn_calls := Suc (shape_fn_calls st)\<rparr>))"

subsection \<open>Operands\<close>

text \<open>
  Modelled from the spec: \<^verbatim>\<open>Node::AddOperand(node, index)\<close> is declared only ("Adds node's
  index output number as operand"). The node "stores its operands as owned references (for
  lifetime) and mirrors them as non-owning OutputRefs".
\<close>

definition AddOperand :: "'h Node \<Rightarrow> NodePtr \<Rightarrow> nat \<Rightarrow> 'h Node" where
  "AddOperand n p i =
     n\<lparr>operands_m := operands_m n @ [p],
       operands_as_outputs_m := operands_as_outputs_m n @ [Output_ctor (get p) i]\<rparr>"

text \<open>
  Modelled from the spec: the loop of the constructor over its operand list is not in the
  header. Each operand is added in operand order and the cumulative hash of its producing node
  is collected in the same order.
\<close>

fun add_operands ::
  "'h IrState \<Rightarrow> Value list \<Rightarrow> 'h Node \<times> 'h list \<Rightarrow> error + ('h Node \<times> 'h list)" where
  "add_operands st [] acc = Inr acc"
| "add_operands st (v # vs) (n, hs) =
     (case operand_hash st v of
        Inl e \<Rightarrow> Inl e
      | Inr h \<Rightarrow> add_operands st vs (AddOperand n (Value.node v) (Value.index v), hs @ [h]))"

subsection \<open>The constructors\<close>

text \<open>
  Modelled from the spec: the validation of the shape by the constructors is not in the header.
  The shape is "validated to be consistent with output_count (a tuple shape with matching
  arity for multi-output nodes)".
\<close>

definition shape_arity_ok :: "Shape \<Rightarrow> nat \<Rightarrow> bool" where
  "shape_arity_ok s k = (k \<le> 1 \<or> (IsTuple s \<and> length (tuple_shapes s) = k))"

text \<open>
  Modelled from the spec: the member initialisation of the constructors is not in the header.
  The node takes its operation, output count and shape as given, has no operand yet, its own
  hash from \<open>GetOpHash\<close>, and its metadata from the scope stack and the current frames.
\<close>

definition Node_init ::
  "'h Hashing \<Rightarrow> 'h IrState \<Rightarrow> ClassId \<Rightarrow> OpKind \<Rightarrow> Shape \<Rightarrow> nat \<Rightarrow> 'h \<Rightarrow> 'h Node" where
  "Node_init H st T k s num hash_seed =
     \<lparr>dynamic_type = T, op_m = k, num_outputs_m = num, shape_m = s,
      operands_m = [], operands_as_outputs_m = [],
      node_hash_m = GetOpHash H k s hash_seed, hash_m = GetOpHash H k s hash_seed,
      metadata_m = \<lparr>scope = GetCurrentScope st, frame_info = frames st\<rparr>\<rparr>"

text \<open>
  Modelled from the spec: the body of
  \<^verbatim>\<open>Node(OpKind op, OpList operands, xla::Shape shape, size_t num_outputs, xla::hash_t hash_seed)\<close>
  is not in the header. "cumulative_hash = combine(own_hash, cumulative_hash(operand_0), ...,
  cumulative_hash(operand_{n-1})) in operand order". \<open>T\<close> is the class being constructed.
\<close>

definition Node_ctor ::
  "'h Hashing \<Rightarrow> 'h IrState \<Rightarrow> ClassId \<Rightarrow> OpKind \<Rightarrow> Value list \<Rightarrow> Shape \<Rightarrow> nat \<Rightarrow> 'h
     \<Rightarrow> error + 'h Node" where
  "Node_ctor H st T k ops s num hash_seed =
     (if \<not> shape_arity_ok s num then Inl ShapeArityMismatch
      else
        (case add_operands st ops (Node_init H st T k s num hash_seed, []) of
           Inl e \<Rightarrow> Inl e
         | Inr (n, hs) \<Rightarrow> Inr (n\<lparr>hash_m := combine H (node_hash_m n # hs)\<rparr>)))"

text \<open>
  Modelled from the spec: the body of the constructor taking a \<^verbatim>\<open>shape_fn\<close> is not in the
  header. "Same as the constructor above, but the shape is generated by a function"; the shape
  is obtained through \<open>GetOpShape\<close> when it is needed for the hash.
\<close>

definition Node_ctor_deferred ::
  "'h Hashing \<Rightarrow> 'h IrState \<Rightarrow> ClassId \<Rightarrow> OpKind \<Rightarrow> Value list \<Rightarrow> Shape option \<Rightarrow> (unit \<Rightarrow> Shape)
     \<Rightarrow> nat \<Rightarrow> 'h \<Rightarrow> (error + 'h Node) \<times> 'h IrState" where
  "Node_ctor_deferred H st T k ops cached shape_fn num hash_seed =
     (case GetOpShape cached shape_fn st of
        (s, st') \<Rightarrow> (Node_ctor H st' T k ops s num hash_seed, st'))"

text \<open>
  Modelled from the spec: the body of the constructor "used to create leaf nodes" is not in
  the header. "(operation, shape, output_count, hash_seed) - no operands"; the cumulative hash
  is then the combination of the own hash alone.
\<close>

definition Node_ctor_leaf ::
  "'h Hashing \<Rightarrow> 'h IrState \<Rightarrow> ClassId \<Rightarrow> OpKind \<Rightarrow> Shape \<Rightarrow> nat \<Rightarrow> 'h \<Rightarrow> error + 'h Node" where
  "Node_ctor_leaf H st T k s num hash_seed = Node_ctor H st T k [] s num hash_seed"

section \<open>Reading a node\<close>

text \<open>
  Modelled from the spec: \<^verbatim>\<open>Node::shape(size_t output_index)\<close> is declared only. It returns
  the "shape at that index, fails with an out-of-range condition if the node is not
  multi-output and output_index \<noteq> 0, or if output_index \<ge> output_count"; on a multi-output
  node the shape at an index is the component of the tuple shape. A node is multi-output when
  it has more than one output.
\<close>

definition shape_at :: "'h Node \<Rightarrow> nat \<Rightarrow> error + Shape" where
  "shape_at n output_index =
     (if (\<not> 1 < num_outputs_m n \<and> output_index \<noteq> 0) \<or> num_outputs_m n \<le> output_index
      then Inl OutOfRange
      else if 1 < num_outputs_m n then
        (if output_index < length (tuple_shapes (shape_m n))
         then Inr (tuple_shapes (shape_m n) ! output_index)
         else Inl OutOfRange)
      else Inr (shape_m n))"

text \<open>
  The public reading interface as calls on a constructed node. Every member called here is
  \<^verbatim>\<open>const\<close> and the class has no \<^verbatim>\<open>mutable\<close> member, so a call returns its answer and
  leaves the node and the state as they were.
\<close>

datatype query =
  Q_op | Q_num_outputs | Q_shape | Q_shape_at nat | Q_operands | Q_operand_nodes
  | Q_operand nat | Q_node_hash | Q_hash | Q_metadata

datatype 'h answer =
  A_op OpKind | A_num_outputs nat | A_shape Shape | A_shape_at "error + Shape"
  | A_operands "Output list" | A_operand_nodes "NodePtr list" | A_operand "error + Output"
  | A_node_hash 'h | A_hash 'h | A_metadata MetaData

fun answer_of :: "query \<Rightarrow> 'h Node \<Rightarrow> 'h answer" where
  "answer_of Q_op n = A_op (op n)"
| "answer_of Q_num_outputs n = A_num_outputs (num_outputs n)"
| "answer_of Q_shape n = A_shape (shape n)"
| "answer_of (Q_shape_at i) n = A_shape_at (shape_at n i)"
| "answer_of Q_operands n = A_operands (operands n)"
| "answer_of Q_operand_nodes n = A_operand_nodes (operand_nodes n)"
| "answer_of (Q_operand i) n = A_operand (operand n i)"
| "answer_of Q_node_hash n = A_node_hash (node_hash n)"
| "answer_of Q_hash n = A_hash (hash n)"
| "answer_of Q_metadata n = A_metadata (metadata n)"

definition call :: "query \<Rightarrow> 'h Node \<times> 'h IrState \<Rightarrow> 'h answer \<times> 'h Node \<times> 'h IrState" where
  "call q c = (answer_of q (fst c), c)"

fun calls :: "query list \<Rightarrow> 'h Node \<times> 'h IrState \<Rightarrow> 'h answer list \<times> 'h Node \<times> 'h IrState" where
  "calls [] c = ([], c)"
| "calls (q # qs) c =
     (case call q c of (a, c') \<Rightarrow> (case calls qs c' of (as, c'') \<Rightarrow> (a # as, c'')))"

text \<open>
  The owned operand list and its non-owning mirror correspond: the mirror holds, entry by
  entry, the raw pointer of the owned node.
\<close>

definition operands_mirrored :: "'h Node \<Rightarrow> bool" where
  "operands_mirrored n = (map Output.node (operands_as_outputs_m n) = map get (operands_m n))"

section \<open>Sample graphs\<close>

text \<open>
  A concrete instance of the parameters, on which the model runs: 64-bit hashes combined by a
  polynomial fold, an empty state, and a class hierarchy in which no class derives from
  another.
\<close>

definition sample_hashing :: "64 word Hashing" where
  "sample_hashing =
     \<lparr>combine = foldl (\<lambda>a b. 31 * a + b) 17,
      OpKind_hash = (\<lambda>k. ucast (sym k)),
      Shape_hash = (\<lambda>s. of_nat (size s))\<rparr>"

definition empty_state :: "64 word IrState" where
  "empty_state = \<lparr>heap = Map.empty, next_addr = 0, scopes = [], frames = [], shape_fn_calls = 0\<rparr>"

definition unrelated_classes :: "ClassId \<Rightarrow> ClassId \<Rightarrow> bool" where
  "unrelated_classes D T = (D = T)"

definition f32_scalar :: Shape where
  "f32_scalar = ArrayShape F32 []"

text \<open>The default \<^verbatim>\<open>hash_seed\<close> of the constructors, \<^verbatim>\<open>0x5a2d296e9\<close>.\<close>

definition default_hash_seed :: "64 word" where
  "default_hash_seed = 0x5a2d296e9"

definition const_op :: OpKind where
  "const_op = OpKind 1"

definition add_op :: OpKind where
  "add_op = OpKind 2"

definition param_op :: OpKind where
  "param_op = OpKind 3"

text \<open>Two leaf nodes of the base class, built in the empty state.\<close>

definition const_leaf :: "64 word Node" where
  "const_leaf =
     projr (Node_ctor_leaf sample_hashing empty_state ''Node'' const_op f32_scalar 1
              default_hash_seed)"

definition param_leaf :: "64 word Node" where
  "param_leaf =
     projr (Node_ctor_leaf sample_hashing empty_state ''Node'' param_op f32_scalar 1
              default_hash_seed)"

text \<open>
  A heap of three leaves: two separately allocated constants of equal content at the
  addresses 0 and 1, and a parameter at address 2.
\<close>

definition three_leaves :: "64 word IrState" where
  "three_leaves =
     snd (MakeNode (snd (MakeNode (snd (MakeNode empty_state const_leaf)) const_leaf)) param_leaf)"

text \<open>A node with two outputs.\<close>

definition two_outputs :: "64 word Node" where
  "two_outputs =
     projr (Node_ctor_leaf sample_hashing empty_state ''Node'' param_op
              (TupleShape [f32_scalar, ArrayShape S32 [2, 3]]) 2 default_hash_seed)"

text \<open>An addition over operands taken from the three leaves, eager and deferred.\<close>

definition add_node :: "Value list \<Rightarrow> error + 64 word Node" where
  "add_node ops =
     Node_ctor sample_hashing three_leaves ''Node'' add_op ops f32_scalar 1 default_hash_seed"

definition deferred_add :: "(error + 64 word Node) \<times> 64 word IrState" where
  "deferred_add =
     Node_ctor_deferred sample_hashing three_leaves ''Node'' add_op
       [Value_ctor (Some 2) 0, Value_ctor (Some 0) 0] None (\<lambda>u. f32_scalar) 1 default_hash_seed"

section \<open>Auxiliary facts\<close>

subsection \<open>The operand loop and the constructors\<close>

lemma add_operands_Inr:
  "add_operands st vs (n, hs) = Inr (n', hs') \<Longrightarrow>
     n' = n\<lparr>operands_m := operands_m n @ map Value.node vs,
            operands_as_outputs_m := operands_as_outputs_m n @ map Value_Output vs\<rparr>
     \<and> hs' = hs @ map (\<lambda>v. projr (operand_hash st v)) vs
     \<and> map (operand_hash st) vs = map Inr (map (\<lambda>v. projr (operand_hash st v)) vs)"
proof (induction vs arbitrary: n hs)
  case Nil
  then show ?case by simp
next
  case (Cons v vs)
  from Cons.prems obtain h where h: "operand_hash st v = Inr h"
    and rest: "add_operands st vs (AddOperand n (Value.node v) (Value.index v), hs @ [h]) = Inr (n', hs')"
    by (auto split: sum.splits)
  from Cons.IH [OF rest] h show ?case
    by (simp add: AddOperand_def Value_Output_def)
qed

lemma add_operands_total:
  "map (operand_hash st) vs = map Inr gs \<Longrightarrow> \<exists>r. add_operands st vs (n, hs) = Inr r"
proof (induction vs arbitrary: n hs gs)
  case Nil
  then show ?case by simp
next
  case (Cons v vs)
  then show ?case by (cases gs) auto
qed

lemma Node_ctor_Inr:
  assumes "Node_ctor H st T k ops s num hash_seed = Inr n"
  shows "n = (Node_init H st T k s num hash_seed)
             \<lparr>operands_m := map Value.node ops,
              operands_as_outputs_m := map Value_Output ops,
              hash_m := combine H (GetOpHash H k s hash_seed # map (\<lambda>v. projr (operand_hash st v)) ops)\<rparr>"
    and "shape_arity_ok s num"
    and "map (operand_hash st) ops = map Inr (map (\<lambda>v. projr (operand_hash st v)) ops)"
proof -
  from assms have ok: "shape_arity_ok s num"
    by (auto simp: Node_ctor_def split: if_splits)
  from assms ok obtain m hs where
    ao: "add_operands st ops (Node_init H st T k s num hash_seed, []) = Inr (m, hs)"
    and n: "n = m\<lparr>hash_m := combine H (node_hash_m m # hs)\<rparr>"
    by (auto simp: Node_ctor_def split: sum.splits)
  from add_operands_Inr [OF ao] n
  show "n = (Node_init H st T k s num hash_seed)
             \<lparr>operands_m := map Value.node ops,
              operands_as_outputs_m := map Value_Output ops,
              hash_m := combine H (GetOpHash H k s hash_seed # map (\<lambda>v. projr (operand_hash st v)) ops)\<rparr>"
    by (simp add: Node_init_def)
  show "shape_arity_ok s num" by (rule ok)
  from add_operands_Inr [OF ao]
  show "map (operand_hash st) ops = map Inr (map (\<lambda>v. projr (operand_hash st v)) ops)"
    by simp
qed

lemma Node_ctor_deferred_Inr:
  "fst (Node_ctor_deferred H st T k ops cached shape_fn num hash_seed) = Inr n \<Longrightarrow>
     Node_ctor H (snd (GetOpShape cached shape_fn st)) T k ops
        (fst (GetOpShape cached shape_fn st)) num hash_seed = Inr n"
  by (simp add: Node_ctor_deferred_def split: prod.splits)

lemma AddOperand_mirrored: "operands_mirrored m \<Longrightarrow> operands_mirrored (AddOperand m p j)"
  by (simp add: operands_mirrored_def AddOperand_def Output_ctor_def)

lemma AddOperand_metadata:
  "AddOperand (n\<lparr>metadata_m := md\<rparr>) p i = (AddOperand n p i)\<lparr>metadata_m := md\<rparr>"
  by (simp add: AddOperand_def)

subsection \<open>Reading calls\<close>

lemma calls_unchanged: "snd (calls qs c) = c"
  by (induction qs arbitrary: c) (simp_all add: call_def split_beta)

lemma calls_answers: "fst (calls qs c) = map (\<lambda>q. answer_of q (fst c)) qs"
proof (induction qs arbitrary: c)
  case Nil
  then show ?case by simp
next
  case (Cons q qs)
  have "snd (call q c) = c" by (simp add: call_def)
  with Cons.IH [of c] show ?case
    by (simp add: call_def split_beta)
qed

subsection \<open>What construction reads of the state\<close>

lemma run_scope_op_frame:
  "heap (run_scope_op x st) = heap st \<and> frames (run_scope_op x st) = frames st
   \<and> shape_fn_calls (run_scope_op x st) = shape_fn_calls st
   \<and> next_addr (run_scope_op x st) = next_addr st"
  by (cases x) (simp_all add: ScopePusher_ctor_def ScopePusher_dtor_def ResetScopes_def)

lemma run_scope_ops_frame:
  "heap (run_scope_ops xs st) = heap st \<and> frames (run_scope_ops xs st) = frames st
   \<and> shape_fn_calls (run_scope_ops xs st) = shape_fn_calls st
   \<and> next_addr (run_scope_ops xs st) = next_addr st"
  by (induction xs arbitrary: st) (simp_all add: run_scope_op_frame)

lemma operand_hash_heap: "heap st1 = heap st2 \<Longrightarrow> operand_hash st1 v = operand_hash st2 v"
  by (simp add: operand_hash_def deref_def split: option.splits)

lemma add_operands_heap:
  "heap st1 = heap st2 \<Longrightarrow> add_operands st1 vs acc = add_operands st2 vs acc"
proof (induction vs arbitrary: acc)
  case Nil
  then show ?case by simp
next
  case (Cons v vs)
  obtain n hs where acc: "acc = (n, hs)" by (cases acc)
  show ?case
  proof (cases "operand_hash st2 v")
    case (Inl e)
    with Cons.prems acc show ?thesis by (simp add: operand_hash_heap [of st1 st2])
  next
    case (Inr h)
    with Cons.prems acc Cons.IH [OF Cons.prems] show ?thesis
      by (simp add: operand_hash_heap [of st1 st2])
  qed
qed

lemma add_operands_metadata:
  "add_operands st vs (n\<lparr>metadata_m := md\<rparr>, hs) =
     map_sum id (\<lambda>r. ((fst r)\<lparr>metadata_m := md\<rparr>, snd r)) (add_operands st vs (n, hs))"
proof (induction vs arbitrary: n hs)
  case Nil
  then show ?case by simp
next
  case (Cons v vs)
  show ?case
  proof (cases "operand_hash st v")
    case (Inl e)
    then show ?thesis by simp
  next
    case (Inr h)
    then show ?thesis by (simp add: AddOperand_metadata Cons.IH)
  qed
qed

lemma Node_ctor_state:
  assumes "heap st1 = heap st2"
  shows "Node_ctor H st1 T k ops s num hash_seed =
     map_sum id (\<lambda>n. n\<lparr>metadata_m := \<lparr>scope = GetCurrentScope st1, frame_info = frames st1\<rparr>\<rparr>)
       (Node_ctor H st2 T k ops s num hash_seed)"
proof (cases "shape_arity_ok s num")
  case False
  then show ?thesis by (simp add: Node_ctor_def)
next
  case True
  have init: "Node_init H st1 T k s num hash_seed =
      (Node_init H st2 T k s num hash_seed)
        \<lparr>metadata_m := \<lparr>scope = GetCurrentScope st1, frame_info = frames st1\<rparr>\<rparr>"
    by (simp add: Node_init_def)
  have ao: "add_operands st1 ops (Node_init H st1 T k s num hash_seed, []) =
      map_sum id (\<lambda>r. ((fst r)\<lparr>metadata_m := \<lparr>scope = GetCurrentScope st1, frame_info = frames st1\<rparr>\<rparr>, snd r))
        (add_operands st2 ops (Node_init H st2 T k s num hash_seed, []))"
    by (simp only: init add_operands_metadata add_operands_heap [OF assms])
  show ?thesis
  proof (cases "add_operands st2 ops (Node_init H st2 T k s num hash_seed, [])")
    case (Inl e)
    with True ao show ?thesis by (simp add: Node_ctor_def)
  next
    case (Inr r)
    with True ao show ?thesis by (cases r) (simp add: Node_ctor_def)
  qed
qed

lemma map_sum_cong_field:
  "(\<And>n. f (g n) = f n) \<Longrightarrow> map_sum id f (map_sum id g r) = map_sum id f r"
  by (cases r) simp_all

subsection \<open>The sample graphs, evaluated\<close>

lemmas sample_defs =
  const_leaf_def param_leaf_def three_leaves_def sample_hashing_def empty_state_def
  const_op_def add_op_def param_op_def f32_scalar_def default_hash_seed_def MakeNode_def
  Node_ctor_leaf_def Node_ctor_def Node_init_def GetOpHash_def shape_arity_ok_def
  operand_hash_def deref_def get_def hash_def node_hash_def AddOperand_def Output_ctor_def
  Value_ctor_def GetCurrentScope_def two_outputs_def add_node_def

lemma three_leaves_heap:
  "heap three_leaves 0 = Some const_leaf" "heap three_leaves 2 = Some param_leaf"
  by (simp_all add: three_leaves_def MakeNode_def empty_state_def)


lemma add_node_2_0:
  "add_node [Value_ctor (Some 2) 0, Value_ctor (Some 0) 0] =
     Inr ((Node_init sample_hashing three_leaves ''Node'' add_op f32_scalar 1 default_hash_seed)
            \<lparr>operands_m := [Some 2, Some 0],
             operands_as_outputs_m := [Output_ctor (Some 2) 0, Output_ctor (Some 0) 0],
             hash_m := combine sample_hashing
                [GetOpHash sample_hashing add_op f32_scalar default_hash_seed,
                 hash param_leaf, hash const_leaf]\<rparr>)"
  by (simp add: sample_defs)

lemma deferred_add_eval:
  "deferred_add = (add_node [Value_ctor (Some 2) 0, Value_ctor (Some 0) 0],
                   three_leaves\<lparr>shape_fn_calls := 1\<rparr>)"
  by (simp add: deferred_add_def Node_ctor_deferred_def GetOpShape_def sample_defs)



section \<open>Properties of the handles\<close>

text \<open>
  C10. A \<^verbatim>\<open>Value\<close> can be empty: the default-constructed value holds a null node and index 0
  and converts to \<open>False\<close>; the boolean conversion of any value is true exactly when its node
  pointer is not null; and the conversion to \<^verbatim>\<open>Output\<close> yields the raw pointer of the node and
  the same index, so the empty value converts to an output whose node is null.
\<close>

theorem Value_empty_and_conversions:
  "Value.node Value_default = None \<and> Value.index Value_default = 0
   \<and> Value_bool Value_default = False
   \<and> Value_bool v = (Value.node v \<noteq> None)
   \<and> Output.node (Value_Output v) = get (Value.node v)
   \<and> Output.index (Value_Output v) = Value.index v
   \<and> Output.node (Value_Output (Value_ctor None i)) = None
   \<and> Output.index (Value_Output (Value_ctor None i)) = i"
  by (simp add: Value_default_def Value_bool_def Value_Output_def Output_ctor_def
      Value_ctor_def get_def)

text \<open>A value holding the node at address 7, and the empty value.\<close>

theorem Value_empty_and_conversions_witness:
  "Value_bool (Value_ctor (Some 7) 2) = True
   \<and> Output.node (Value_Output (Value_ctor (Some 7) 2)) = Some 7
   \<and> Output.index (Value_Output (Value_ctor (Some 7) 2)) = 2
   \<and> Value_bool Value_default = False
   \<and> Output.node (Value_Output Value_default) = None"
  using Value_empty_and_conversions [of "Value_ctor (Some 7) 2" 0]
    Value_empty_and_conversions [of Value_default 0]
  by (simp add: Value_ctor_def get_def)

text \<open>
  Two values holding different nodes at different indices compare equal with \<^verbatim>\<open>==\<close>: both are
  non-empty, and that is all the comparison of two \<^verbatim>\<open>Value\<close>s looks at.
\<close>

theorem Value_comparison_not_structural:
  "Value_eq (Value_ctor (Some 0) 0) (Value_ctor (Some 2) 3)
   \<and> Value.node (Value_ctor (Some 0) 0) \<noteq> Value.node (Value_ctor (Some 2) 3)
   \<and> Value.index (Value_ctor (Some 0) 0) \<noteq> Value.index (Value_ctor (Some 2) 3)"
  by (simp add: Value_eq_def Value_bool_def Value_ctor_def)

text \<open>
  C8, as the code has it. Equality of \<^verbatim>\<open>Output\<close> handles is structural: two outputs compare
  equal exactly when they have the same node pointer and the same index, and \<^verbatim>\<open>!=\<close> is the
  negation. \<^verbatim>\<open>Value\<close> has no equality operator of its own; compared as the \<^verbatim>\<open>Output\<close> it
  converts to (the right operand of \<^verbatim>\<open>output == value\<close>, or both sides converted), a value is
  compared structurally too, on the raw pointer of its node and its index.
\<close>

theorem Output_equality_structural:
  "Output_eq a b = (Output.node a = Output.node b \<and> Output.index a = Output.index b)
   \<and> Output_eq a b = (a = b)
   \<and> Output_neq a b = (a \<noteq> b)
   \<and> Output_eq_Value a v = (Output.node a = get (Value.node v) \<and> Output.index a = Value.index v)
   \<and> Output_eq (Value_Output v) (Value_Output w)
       = (Value.node v = Value.node w \<and> Value.index v = Value.index w)"
  by (auto simp: Output_eq_def Output_neq_def Output_eq_Value_def Value_Output_def
      Output_ctor_def get_def)

text \<open>Equal handles, handles differing in the node only and in the index only.\<close>

theorem Output_equality_structural_witness:
  "Output_eq (Output_ctor (Some 2) 3) (Output_ctor (Some 2) 3)
   \<and> Output_neq (Output_ctor (Some 2) 3) (Output_ctor (Some 0) 3)
   \<and> Output_neq (Output_ctor (Some 2) 3) (Output_ctor (Some 2) 0)
   \<and> Output_eq_Value (Output_ctor (Some 2) 3) (Value_ctor (Some 2) 3)
   \<and> Output_neq (Value_Output (Value_ctor (Some 0) 0)) (Value_Output (Value_ctor (Some 2) 3))"
  using Output_equality_structural [of "Output_ctor (Some 2) 3" "Output_ctor (Some 2) 3"
      "Value_ctor (Some 2) 3" "Value_ctor (Some 2) 3"]
    Output_equality_structural [of "Output_ctor (Some 2) 3" "Output_ctor (Some 0) 3"
      "Value_ctor (Some 0) 0" "Value_ctor (Some 2) 3"]
    Output_equality_structural [of "Output_ctor (Some 2) 3" "Output_ctor (Some 2) 0"
      "Value_ctor (Some 0) 0" "Value_ctor (Some 2) 3"]
    Output_equality_structural [of "Value_Output (Value_ctor (Some 0) 0)"
      "Value_Output (Value_ctor (Some 2) 3)" "Value_ctor (Some 0) 0" "Value_ctor (Some 2) 3"]
  by (simp add: Output_ctor_def Value_ctor_def Value_Output_def get_def Output_neq_def)

section \<open>Properties of reading a node\<close>

text \<open>
  C3. \<^verbatim>\<open>operand(i)\<close> fails with the out-of-range error for every index at or beyond the
  number of operands, and returns the \<open>i\<close>-th non-owning \<^verbatim>\<open>Output\<close> for every smaller index;
  no index is truncated or clamped.
\<close>

theorem operand_bounds_checked:
  "(length (operands n) \<le> i \<longrightarrow> operand n i = Inl OutOfRange)
   \<and> (i < length (operands n) \<longrightarrow> operand n i = Inr (operands n ! i))"
  by (simp add: operand_def operands_def)

text \<open>
  The addition over the leaves at 2 and 0 has operand 0 and no operand 2; a leaf has no
  operand at all.
\<close>

theorem operand_bounds_checked_witness:
  "operand (projr (add_node [Value_ctor (Some 2) 0, Value_ctor (Some 0) 0])) 0
     = Inr (Output_ctor (Some 2) 0)
   \<and> operand (projr (add_node [Value_ctor (Some 2) 0, Value_ctor (Some 0) 0])) 2 = Inl OutOfRange
   \<and> operand const_leaf 0 = Inl OutOfRange"
proof -
  have ops: "operands (projr (add_node [Value_ctor (Some 2) 0, Value_ctor (Some 0) 0]))
      = [Output_ctor (Some 2) 0, Output_ctor (Some 0) 0]"
    by (simp add: add_node_2_0 operands_def)
  have leaf: "operands const_leaf = []"
    by (simp add: sample_defs operands_def)
  from operand_bounds_checked [of "projr (add_node [Value_ctor (Some 2) 0, Value_ctor (Some 0) 0])" 0]
    operand_bounds_checked [of "projr (add_node [Value_ctor (Some 2) 0, Value_ctor (Some 0) 0])" 2]
    operand_bounds_checked [of const_leaf 0]
  show ?thesis by (simp add: ops leaf)
qed



section \<open>Properties of construction\<close>

text \<open>
  C2. After construction by any of the three constructors from the operand list \<open>ops\<close>, the
  owned list and its non-owning mirror both have the length of \<open>ops\<close>; at every index the
  mirror entry holds the raw pointer of the owned node, which is the node of the operand
  given at that index, and the output index of that operand (the owned list stores nodes
  only). The correspondence is kept by \<^verbatim>\<open>AddOperand\<close>, the one member that writes either
  list and always extends both, and no reading call changes the node.
\<close>

theorem operands_mirror_owned_list:
  assumes "Node_ctor H st T k ops s num hash_seed = Inr n
           \<or> fst (Node_ctor_deferred H st T k ops cached shape_fn num hash_seed) = Inr n
           \<or> (ops = [] \<and> Node_ctor_leaf H st T k s num hash_seed = Inr n)"
  shows "length (operand_nodes n) = length ops \<and> length (operands n) = length ops
       \<and> (\<forall>i<length ops. Output.node (operands n ! i) = get (operand_nodes n ! i)
             \<and> operand_nodes n ! i = Value.node (ops ! i)
             \<and> Output.index (operands n ! i) = Value.index (ops ! i))
       \<and> operands_mirrored n
       \<and> (\<forall>m. operands_mirrored m \<longrightarrow> operands_mirrored (AddOperand m p j))
       \<and> fst (snd (calls qs (n, st'))) = n"
proof -
  from assms obtain st0 s0 where c: "Node_ctor H st0 T k ops s0 num hash_seed = Inr n"
    by (auto simp: Node_ctor_leaf_def dest: Node_ctor_deferred_Inr)
  have owned: "operands_m n = map Value.node ops"
    and mirror: "operands_as_outputs_m n = map Value_Output ops"
    using Node_ctor_Inr(1) [OF c] by (simp_all add: Node_init_def)
  have "operands_mirrored n"
    by (simp add: operands_mirrored_def owned mirror Value_Output_def Output_ctor_def)
  moreover have "fst (snd (calls qs (n, st'))) = n"
    by (simp add: calls_unchanged)
  moreover have "\<forall>i<length ops. Output.node (operands n ! i) = get (operand_nodes n ! i)
             \<and> operand_nodes n ! i = Value.node (ops ! i)
             \<and> Output.index (operands n ! i) = Value.index (ops ! i)"
    by (simp add: operands_def operand_nodes_def owned mirror Value_Output_def Output_ctor_def)
  ultimately show ?thesis
    by (simp add: operands_def operand_nodes_def owned mirror AddOperand_mirrored)
qed

text \<open>The addition over the leaves at 2 and 0, and one more operand added to it.\<close>

theorem operands_mirror_owned_list_witness:
  "length (operand_nodes (projr (add_node [Value_ctor (Some 2) 0, Value_ctor (Some 0) 0]))) = 2
   \<and> length (operands (projr (add_node [Value_ctor (Some 2) 0, Value_ctor (Some 0) 0]))) = 2
   \<and> Output.node (operands (projr (add_node [Value_ctor (Some 2) 0, Value_ctor (Some 0) 0])) ! 0)
       = Some 2
   \<and> Output.index (operands (projr (add_node [Value_ctor (Some 2) 0, Value_ctor (Some 0) 0])) ! 0)
       = 0
   \<and> operands_mirrored (projr (add_node [Value_ctor (Some 2) 0, Value_ctor (Some 0) 0]))
   \<and> operands_mirrored
        (AddOperand (projr (add_node [Value_ctor (Some 2) 0, Value_ctor (Some 0) 0])) (Some 0) 0)"
proof -
  obtain n where c: "Node_ctor sample_hashing three_leaves ''Node'' add_op
      [Value_ctor (Some 2) 0, Value_ctor (Some 0) 0] f32_scalar 1 default_hash_seed = Inr n"
    using add_node_2_0 by (simp add: add_node_def)
  then have n: "projr (add_node [Value_ctor (Some 2) 0, Value_ctor (Some 0) 0]) = n"
    by (simp add: add_node_def)
  note t = operands_mirror_owned_list [OF disjI1, OF c, of "Some 0" 0 "[]" three_leaves]
  from t have "length (operand_nodes n) = length [Value_ctor (Some 2) 0, Value_ctor (Some 0) 0]"
    and "length (operands n) = length [Value_ctor (Some 2) 0, Value_ctor (Some 0) 0]"
    by blast+
  then have len: "length (operand_nodes n) = 2" "length (operands n) = 2"
    by simp_all
  from t have "\<forall>i<length [Value_ctor (Some 2) 0, Value_ctor (Some 0) 0].
      Output.node (operands n ! i) = get (operand_nodes n ! i)
      \<and> operand_nodes n ! i = Value.node ([Value_ctor (Some 2) 0, Value_ctor (Some 0) 0] ! i)
      \<and> Output.index (operands n ! i)
          = Value.index ([Value_ctor (Some 2) 0, Value_ctor (Some 0) 0] ! i)"
    by blast
  from this [rule_format, of 0]
  have first: "Output.node (operands n ! 0) = Some 2" "Output.index (operands n ! 0) = 0"
    by (simp_all add: Value_ctor_def get_def)
  from t have inv: "operands_mirrored n" "operands_mirrored (AddOperand n (Some 0) 0)"
    by blast+
  from len first inv show ?thesis unfolding n by simp
qed




text \<open>
  C5. The shape function given to the deferred-shape constructor is invoked at most once for
  the node, during construction; its result (or the cached shape) is stored as the shape of
  the node. No later call of \<^verbatim>\<open>shape()\<close>, \<^verbatim>\<open>hash()\<close> or any other reading member invokes it
  again or changes the node: every \<^verbatim>\<open>shape()\<close> call returns the stored shape.
\<close>

theorem shape_fn_invoked_at_most_once:
  assumes "Node_ctor_deferred H st T k ops cached shape_fn num hash_seed = (r, st')"
  shows "shape_fn_calls st' \<le> shape_fn_calls st + 1
       \<and> (r = Inr n \<longrightarrow>
            shape n = (case cached of Some s \<Rightarrow> s | None \<Rightarrow> shape_fn ())
          \<and> snd (calls qs (n, st')) = (n, st')
          \<and> shape_fn_calls (snd (snd (calls qs (n, st')))) = shape_fn_calls st'
          \<and> (\<forall>j<length qs. qs ! j = Q_shape \<longrightarrow> fst (calls qs (n, st')) ! j = A_shape (shape n)))"
proof -
  from assms have st': "st' = snd (GetOpShape cached shape_fn st)"
    and r: "r = Node_ctor H st' T k ops (fst (GetOpShape cached shape_fn st)) num hash_seed"
    by (auto simp: Node_ctor_deferred_def split: prod.splits)
  have count: "shape_fn_calls st' \<le> shape_fn_calls st + 1"
    by (simp add: st' GetOpShape_def split: option.splits)
  have stored: "shape n = (case cached of Some s \<Rightarrow> s | None \<Rightarrow> shape_fn ())" if "r = Inr n"
  proof -
    from that r have "Node_ctor H st' T k ops (fst (GetOpShape cached shape_fn st)) num hash_seed = Inr n"
      by simp
    from Node_ctor_Inr(1) [OF this] show ?thesis
      by (simp add: shape_def Node_init_def GetOpShape_def split: option.splits)
  qed
  have reads: "\<forall>j<length qs. qs ! j = Q_shape \<longrightarrow> fst (calls qs (n, st')) ! j = A_shape (shape n)"
    by (simp add: calls_answers)
  from count stored reads show ?thesis
    by (simp add: calls_unchanged)
qed

text \<open>
  The deferred addition on a shape cache miss: one invocation at construction, none while
  the shape and the hash are read three times.
\<close>

theorem shape_fn_invoked_at_most_once_witness:
  "shape_fn_calls three_leaves = 0
   \<and> shape_fn_calls (snd deferred_add) = 1
   \<and> shape (projr (fst deferred_add)) = f32_scalar
   \<and> fst (calls [Q_shape, Q_hash, Q_shape] (projr (fst deferred_add), snd deferred_add)) ! 2
       = A_shape f32_scalar
   \<and> shape_fn_calls
        (snd (snd (calls [Q_shape, Q_hash, Q_shape] (projr (fst deferred_add), snd deferred_add))))
       = 1"
proof -
  obtain n where r: "fst deferred_add = Inr n"
    by (simp add: deferred_add_eval add_node_2_0)
  have d: "Node_ctor_deferred sample_hashing three_leaves ''Node'' add_op
       [Value_ctor (Some 2) 0, Value_ctor (Some 0) 0] None (\<lambda>u. f32_scalar) 1 default_hash_seed
       = (fst deferred_add, snd deferred_add)"
    by (simp add: deferred_add_def)
  have c0: "shape_fn_calls three_leaves = 0"
    by (simp add: three_leaves_def MakeNode_def empty_state_def)
  have c1: "shape_fn_calls (snd deferred_add) = 1"
    by (simp add: deferred_add_eval)
  note t = shape_fn_invoked_at_most_once [OF d, of n "[Q_shape, Q_hash, Q_shape]"]
  from t r have sh: "shape n = f32_scalar"
    by simp
  from t r have "\<forall>j<length [Q_shape, Q_hash, Q_shape]. [Q_shape, Q_hash, Q_shape] ! j = Q_shape \<longrightarrow>
      fst (calls [Q_shape, Q_hash, Q_shape] (n, snd deferred_add)) ! j = A_shape (shape n)"
    by blast
  from this [rule_format, of 2]
  have ans: "fst (calls [Q_shape, Q_hash, Q_shape] (n, snd deferred_add)) ! 2 = A_shape (shape n)"
    by simp
  from t r have "shape_fn_calls (snd (snd (calls [Q_shape, Q_hash, Q_shape] (n, snd deferred_add))))
      = shape_fn_calls (snd deferred_add)"
    by blast
  with c0 c1 sh ans r show ?thesis by simp
qed

text \<open>
  C9. Two constructions with the same arguments in states that differ only by the history of
  scope operations (pushes, pops, resets) fail alike or yield nodes with the same own hash,
  the same cumulative hash and the same shape; the two nodes are equal once their metadata
  is set aside. This holds for the eager, the deferred and the leaf constructor.
\<close>

theorem scopes_affect_only_metadata:
  "map_sum id node_hash (Node_ctor H (run_scope_ops xs st) T k ops s num hash_seed)
     = map_sum id node_hash (Node_ctor H (run_scope_ops ys st) T k ops s num hash_seed)
   \<and> map_sum id hash (Node_ctor H (run_scope_ops xs st) T k ops s num hash_seed)
     = map_sum id hash (Node_ctor H (run_scope_ops ys st) T k ops s num hash_seed)
   \<and> map_sum id shape (Node_ctor H (run_scope_ops xs st) T k ops s num hash_seed)
     = map_sum id shape (Node_ctor H (run_scope_ops ys st) T k ops s num hash_seed)
   \<and> map_sum id (\<lambda>n. n\<lparr>metadata_m := md\<rparr>) (Node_ctor H (run_scope_ops xs st) T k ops s num hash_seed)
     = map_sum id (\<lambda>n. n\<lparr>metadata_m := md\<rparr>) (Node_ctor H (run_scope_ops ys st) T k ops s num hash_seed)
   \<and> map_sum id (\<lambda>n. n\<lparr>metadata_m := md\<rparr>)
         (fst (Node_ctor_deferred H (run_scope_ops xs st) T k ops cached shape_fn num hash_seed))
     = map_sum id (\<lambda>n. n\<lparr>metadata_m := md\<rparr>)
         (fst (Node_ctor_deferred H (run_scope_ops ys st) T k ops cached shape_fn num hash_seed))
   \<and> map_sum id (\<lambda>n. n\<lparr>metadata_m := md\<rparr>) (Node_ctor_leaf H (run_scope_ops xs st) T k s num hash_seed)
     = map_sum id (\<lambda>n. n\<lparr>metadata_m := md\<rparr>) (Node_ctor_leaf H (run_scope_ops ys st) T k s num hash_seed)"
proof -
  have key: "map_sum id f (Node_ctor H st1 T k vs s' num hash_seed)
           = map_sum id f (Node_ctor H st2 T k vs s' num hash_seed)"
    if "heap st1 = heap st2" and "\<And>n md'. f (n\<lparr>metadata_m := md'\<rparr>) = f n"
    for f :: "'a Node \<Rightarrow> 'b" and st1 st2 :: "'a IrState" and vs s'
  proof -
    have "map_sum id f (Node_ctor H st1 T k vs s' num hash_seed)
        = map_sum id f (map_sum id (\<lambda>n. n\<lparr>metadata_m := \<lparr>scope = GetCurrentScope st1, frame_info = frames st1\<rparr>\<rparr>)
            (Node_ctor H st2 T k vs s' num hash_seed))"
      by (simp only: Node_ctor_state [OF that(1)])
    also have "\<dots> = map_sum id f (Node_ctor H st2 T k vs s' num hash_seed)"
      by (rule map_sum_cong_field) (rule that(2))
    finally show ?thesis .
  qed
  have hp: "heap (run_scope_ops xs st) = heap (run_scope_ops ys st)"
    by (simp add: run_scope_ops_frame)
  have dhp: "heap (snd (GetOpShape cached shape_fn (run_scope_ops xs st)))
           = heap (snd (GetOpShape cached shape_fn (run_scope_ops ys st)))"
    by (simp add: GetOpShape_def run_scope_ops_frame split: option.splits)
  have dsh: "fst (GetOpShape cached shape_fn (run_scope_ops xs st))
           = fst (GetOpShape cached shape_fn (run_scope_ops ys st))"
    by (simp add: GetOpShape_def split: option.splits)
  have d: "fst (Node_ctor_deferred H st0 T k ops cached shape_fn num hash_seed)
         = Node_ctor H (snd (GetOpShape cached shape_fn st0)) T k ops
             (fst (GetOpShape cached shape_fn st0)) num hash_seed" for st0 :: "'a IrState"
    by (simp add: Node_ctor_deferred_def split_beta)
  have c1: "map_sum id node_hash (Node_ctor H (run_scope_ops xs st) T k ops s num hash_seed)
     = map_sum id node_hash (Node_ctor H (run_scope_ops ys st) T k ops s num hash_seed)"
    by (rule key [OF hp]) (simp add: node_hash_def)
  have c2: "map_sum id hash (Node_ctor H (run_scope_ops xs st) T k ops s num hash_seed)
     = map_sum id hash (Node_ctor H (run_scope_ops ys st) T k ops s num hash_seed)"
    by (rule key [OF hp]) (simp add: hash_def)
  have c3: "map_sum id shape (Node_ctor H (run_scope_ops xs st) T k ops s num hash_seed)
     = map_sum id shape (Node_ctor H (run_scope_ops ys st) T k ops s num hash_seed)"
    by (rule key [OF hp]) (simp add: shape_def)
  have c4: "map_sum id (\<lambda>n. n\<lparr>metadata_m := md\<rparr>) (Node_ctor H (run_scope_ops xs st) T k ops s num hash_seed)
     = map_sum id (\<lambda>n. n\<lparr>metadata_m := md\<rparr>) (Node_ctor H (run_scope_ops ys st) T k ops s num hash_seed)"
    by (rule key [OF hp]) simp
  have c5: "map_sum id (\<lambda>n. n\<lparr>metadata_m := md\<rparr>)
         (fst (Node_ctor_deferred H (run_scope_ops xs st) T k ops cached shape_fn num hash_seed))
     = map_sum id (\<lambda>n. n\<lparr>metadata_m := md\<rparr>)
         (fst (Node_ctor_deferred H (run_scope_ops ys st) T k ops cached shape_fn num hash_seed))"
    unfolding d dsh by (rule key [OF dhp]) simp
  have c6: "map_sum id (\<lambda>n. n\<lparr>metadata_m := md\<rparr>) (Node_ctor_leaf H (run_scope_ops xs st) T k s num hash_seed)
     = map_sum id (\<lambda>n. n\<lparr>metadata_m := md\<rparr>) (Node_ctor_leaf H (run_scope_ops ys st) T k s num hash_seed)"
    unfolding Node_ctor_leaf_def by (rule key [OF hp]) simp
  from c1 c2 c3 c4 c5 c6 show ?thesis by (intro conjI)
qed

text \<open>
  The addition built inside the scope "forward" and built with no scope active: the same
  hash, and the scope shows in the metadata only.
\<close>

theorem scopes_affect_only_metadata_witness:
  "hash (projr (Node_ctor sample_hashing (run_scope_ops [Push ''forward''] three_leaves) ''Node''
           add_op [Value_ctor (Some 2) 0, Value_ctor (Some 0) 0] f32_scalar 1 default_hash_seed))
     = hash (projr (add_node [Value_ctor (Some 2) 0, Value_ctor (Some 0) 0]))
   \<and> scope (metadata (projr (Node_ctor sample_hashing (run_scope_ops [Push ''forward''] three_leaves)
           ''Node'' add_op [Value_ctor (Some 2) 0, Value_ctor (Some 0) 0] f32_scalar 1
           default_hash_seed))) = ''forward''
   \<and> scope (metadata (projr (add_node [Value_ctor (Some 2) 0, Value_ctor (Some 0) 0]))) = []"
proof -
  have e: "Node_ctor sample_hashing (run_scope_ops [Push ''forward''] three_leaves) ''Node''
           add_op [Value_ctor (Some 2) 0, Value_ctor (Some 0) 0] f32_scalar 1 default_hash_seed
      = Inr ((projr (add_node [Value_ctor (Some 2) 0, Value_ctor (Some 0) 0]))
               \<lparr>metadata_m := \<lparr>scope = ''forward'', frame_info = []\<rparr>\<rparr>)"
    by (simp add: sample_defs ScopePusher_ctor_def)
  have m: "scope (metadata (projr (add_node [Value_ctor (Some 2) 0, Value_ctor (Some 0) 0]))) = []"
    by (simp add: add_node_2_0 metadata_def Node_init_def GetCurrentScope_def three_leaves_def
        MakeNode_def empty_state_def)
  from scopes_affect_only_metadata [of sample_hashing "[Push ''forward'']" three_leaves "''Node''"
      add_op "[Value_ctor (Some 2) 0, Value_ctor (Some 0) 0]" f32_scalar 1 default_hash_seed "[]"]
  have "map_sum id hash (Node_ctor sample_hashing (run_scope_ops [Push ''forward''] three_leaves)
           ''Node'' add_op [Value_ctor (Some 2) 0, Value_ctor (Some 0) 0] f32_scalar 1
           default_hash_seed)
      = map_sum id hash (add_node [Value_ctor (Some 2) 0, Value_ctor (Some 0) 0])"
    unfolding add_node_def run_scope_ops.simps(1) by blast
  then have "hash (projr (Node_ctor sample_hashing (run_scope_ops [Push ''forward''] three_leaves)
           ''Node'' add_op [Value_ctor (Some 2) 0, Value_ctor (Some 0) 0] f32_scalar 1
           default_hash_seed))
      = hash (projr (add_node [Value_ctor (Some 2) 0, Value_ctor (Some 0) 0]))"
    unfolding e by (simp add: hash_def)
  with m show ?thesis unfolding e by (simp add: metadata_def)
qed

section \<open>Properties of NodeCast\<close>

text \<open>
  The leaf at address 0 is of class \<^verbatim>\<open>Node\<close> and carries the operation asked for; cast to
  the unrelated class \<^verbatim>\<open>Constant\<close>, the checked build raises \<^verbatim>\<open>std::bad_cast\<close> and returns
  neither a view nor null.
\<close>

theorem NodeCast_checked_build_raises:
  "heap three_leaves 0 = Some const_leaf
   \<and> OpKind_eq const_op (op const_leaf)
   \<and> NodeCast unrelated_classes (heap three_leaves) ''Constant'' (Some 0) const_op = Inl BadCast"
  by (simp add: sample_defs NodeCast_def OpKind_eq_def OpKind_neq_def op_def unrelated_classes_def)

text \<open>
  C6, as the code has it. For a valid node pointer, \<^verbatim>\<open>NodeCast<T>(node, op)\<close> returns null
  exactly when \<^verbatim>\<open>op\<close> differs from the operation of the node, in both builds; a kind mismatch
  is an ordinary result. When the kinds are equal, the optimized build returns the node at
  type \<^verbatim>\<open>T\<close>, and the checked build returns it when the object is a \<^verbatim>\<open>T\<close> and raises
  \<^verbatim>\<open>std::bad_cast\<close> when it is not.
\<close>

theorem NodeCast_outcomes:
  assumes "hp a = Some n"
  shows "(NodeCast_NDEBUG hp T (Some a) k = Inr None) = OpKind_neq k (op n)
       \<and> (NodeCast is_a hp T (Some a) k = Inr None) = OpKind_neq k (op n)
       \<and> (OpKind_eq k (op n) \<longrightarrow> NodeCast_NDEBUG hp T (Some a) k = Inr (Some (T, a)))
       \<and> (OpKind_eq k (op n) \<and> is_a (dynamic_type n) T \<longrightarrow>
             NodeCast is_a hp T (Some a) k = Inr (Some (T, a)))
       \<and> (OpKind_eq k (op n) \<and> \<not> is_a (dynamic_type n) T \<longrightarrow>
             NodeCast is_a hp T (Some a) k = Inl BadCast)"
  using assms by (simp add: NodeCast_def NodeCast_NDEBUG_def OpKind_neq_def)

text \<open>
  The parameter leaf cast to its own class, with its operation and with another one, and
  cast to another class with its operation.
\<close>

theorem NodeCast_outcomes_witness:
  "NodeCast unrelated_classes (heap three_leaves) ''Node'' (Some 2) param_op = Inr (Some (''Node'', 2))
   \<and> NodeCast_NDEBUG (heap three_leaves) ''Node'' (Some 2) param_op = Inr (Some (''Node'', 2))
   \<and> NodeCast unrelated_classes (heap three_leaves) ''Node'' (Some 2) const_op = Inr None
   \<and> NodeCast_NDEBUG (heap three_leaves) ''Node'' (Some 2) const_op = Inr None
   \<and> NodeCast unrelated_classes (heap three_leaves) ''Constant'' (Some 2) param_op = Inl BadCast
   \<and> NodeCast_NDEBUG (heap three_leaves) ''Constant'' (Some 2) param_op
       = Inr (Some (''Constant'', 2))"
proof -
  note hp = three_leaves_heap(2)
  have k: "op param_leaf = param_op" and ty: "dynamic_type param_leaf = ''Node''"
    by (simp_all add: sample_defs op_def)
  from NodeCast_outcomes [where hp = "heap three_leaves" and a = 2 and n = param_leaf
        and T = "''Node''" and k = param_op and is_a = unrelated_classes, OF hp]
    NodeCast_outcomes [where hp = "heap three_leaves" and a = 2 and n = param_leaf
        and T = "''Node''" and k = const_op and is_a = unrelated_classes, OF hp]
    NodeCast_outcomes [where hp = "heap three_leaves" and a = 2 and n = param_leaf
        and T = "''Constant''" and k = param_op and is_a = unrelated_classes, OF hp]
  show ?thesis
    by (simp add: k ty OpKind_eq_def OpKind_neq_def unrelated_classes_def param_op_def const_op_def)
qed

text \<open>
  The parameter leaf, of class \<^verbatim>\<open>Node\<close>, cast to the unrelated class \<^verbatim>\<open>DeviceData\<close> with
  its own operation: the checked build raises, the optimized build returns the pointer.
\<close>

theorem NodeCast_builds_disagree:
  "heap three_leaves 2 = Some param_leaf
   \<and> NodeCast unrelated_classes (heap three_leaves) ''DeviceData'' (Some 2) param_op = Inl BadCast
   \<and> NodeCast_NDEBUG (heap three_leaves) ''DeviceData'' (Some 2) param_op
       = Inr (Some (''DeviceData'', 2))"
  by (simp add: sample_defs NodeCast_def NodeCast_NDEBUG_def OpKind_eq_def OpKind_neq_def op_def
      unrelated_classes_def)

text \<open>
  C7, as the code has it. The checked and the optimized build of \<^verbatim>\<open>NodeCast\<close> return the
  same result for every valid node pointer whenever the operation differs from that of the
  node (both return null) or the object is a \<^verbatim>\<open>T\<close> (both return it at type \<^verbatim>\<open>T\<close>).
\<close>

theorem NodeCast_builds_agree_on_typed_nodes:
  assumes "hp a = Some n" and "OpKind_neq k (op n) \<or> is_a (dynamic_type n) T"
  shows "NodeCast is_a hp T (Some a) k = NodeCast_NDEBUG hp T (Some a) k"
  using assms by (auto simp: NodeCast_def NodeCast_NDEBUG_def)

text \<open>
  The parameter leaf cast to its own class with its operation, and to another class with
  another operation.
\<close>

theorem NodeCast_builds_agree_on_typed_nodes_witness:
  "NodeCast unrelated_classes (heap three_leaves) ''Node'' (Some 2) param_op
     = NodeCast_NDEBUG (heap three_leaves) ''Node'' (Some 2) param_op
   \<and> NodeCast unrelated_classes (heap three_leaves) ''DeviceData'' (Some 2) add_op
     = NodeCast_NDEBUG (heap three_leaves) ''DeviceData'' (Some 2) add_op
   \<and> NodeCast_NDEBUG (heap three_leaves) ''Node'' (Some 2) param_op = Inr (Some (''Node'', 2))
   \<and> NodeCast_NDEBUG (heap three_leaves) ''DeviceData'' (Some 2) add_op = Inr None"
proof -
  note hp = three_leaves_heap(2)
  have ty: "OpKind_neq param_op (op param_leaf) \<or> unrelated_classes (dynamic_type param_leaf) ''Node''"
    by (simp add: sample_defs unrelated_classes_def)
  have kd: "OpKind_neq add_op (op param_leaf) \<or> unrelated_classes (dynamic_type param_leaf) ''DeviceData''"
    by (simp add: sample_defs op_def OpKind_neq_def OpKind_eq_def)
  have v1: "NodeCast_NDEBUG (heap three_leaves) ''Node'' (Some 2) param_op = Inr (Some (''Node'', 2))"
    and v2: "NodeCast_NDEBUG (heap three_leaves) ''DeviceData'' (Some 2) add_op = Inr None"
    by (simp_all add: sample_defs NodeCast_NDEBUG_def op_def OpKind_neq_def OpKind_eq_def)
  from NodeCast_builds_agree_on_typed_nodes [where hp = "heap three_leaves" and a = 2
        and n = param_leaf and T = "''Node''" and k = param_op and is_a = unrelated_classes,
        OF hp ty]
    NodeCast_builds_agree_on_typed_nodes [where hp = "heap three_leaves" and a = 2
        and n = param_leaf and T = "''DeviceData''" and k = add_op and is_a = unrelated_classes,
        OF hp kd]
    v1 v2
  show ?thesis by simp
qed

end
